theory Spec2Isabelle
  imports Main "HOL-Library.Multiset"
begin

section \<open>Data model (schemas.py, models.py)\<close>

text \<open>
  A Python \<open>datetime\<close> is modelled by its position on the time line, an integer; the only
  operations the program applies to it are copying and the ordering of \<open>ORDER BY\<close>.
  A Python \<open>str\<close> is a \<open>string\<close>; \<open>length\<close> counts its characters, as the \<open>min_length\<close>
  and \<open>max_length\<close> constraints of the schema do.
\<close>

type_synonym datetime = int

text \<open>
  \<open>AttendanceV1Base\<close> (schemas.py): the five fields a client submits. \<open>AttendanceV1Create\<close>
  adds no field to it.
\<close>

record AttendanceV1Base =
  student_name :: string
  student_id :: string
  timestamp :: datetime
  bluetooth_signal_strength :: "int option"
  status :: string

type_synonym AttendanceV1Create = AttendanceV1Base

text \<open>
  \<open>AttendanceRecord\<close> (models.py): a row of the table \<open>attendance_records\<close>. It has the
  five columns above, the primary key \<open>id\<close> (here \<open>id_col\<close>) and the two metadata columns.
  \<open>AttendanceV1Response\<close> (schemas.py) has the same fields and is read off the row
  attribute by attribute (\<open>from_attributes\<close>), so one record type serves for both.
\<close>

record AttendanceRecord = AttendanceV1Base +
  id_col :: int
  created_at :: "datetime option"
  updated_at :: "datetime option"

section \<open>The record store and the ORM session\<close>

text \<open>
  The store is the table (in insertion order), the sequence behind the autoincrement
  primary key, the database clock read by \<open>server_default=func.now()\<close>, and the
  failures of the persistence layer: the exception, if any, that it raises on a commit,
  and the exception, if any, that it raises when a committed object is read again
  (each with the text \<open>str(e)\<close> of the exception).
\<close>

record store =
  rows :: "AttendanceRecord list"
  next_id :: int
  clock :: datetime
  commit_fault :: "string option"
  refresh_fault :: "string option"

text \<open>
  A session holds the changes made with \<open>db.add\<close> and \<open>db.delete\<close> that are not yet
  committed. \<open>db.commit()\<close> flushes them to the store in one transaction,
  \<open>db.rollback()\<close> discards them.
\<close>

datatype pending_op = Insert AttendanceV1Base | Delete int

record Session =
  bind :: store
  pending :: "pending_op list"

definition add :: "Session \<Rightarrow> AttendanceV1Base \<Rightarrow> Session" where
  "add db obj = db\<lparr>pending := pending db @ [Insert obj]\<rparr>"

definition delete :: "Session \<Rightarrow> AttendanceRecord \<Rightarrow> Session" where
  "delete db obj = db\<lparr>pending := pending db @ [Delete (id_col obj)]\<rparr>"

definition rollback :: "Session \<Rightarrow> Session" where
  "rollback db = db\<lparr>pending := []\<rparr>"

text \<open>
  The column types of models.py: \<open>String(100)\<close>, \<open>String(50)\<close> and \<open>String(20)\<close>. The
  database refuses a value longer than its column; the result is the text of the error.
\<close>

definition check_columns :: "AttendanceV1Base \<Rightarrow> string option" where
  "check_columns a =
     (if length (student_name a) > 100 then Some ''value too long for type character varying(100)''
      else if length (student_id a) > 50 then Some ''value too long for type character varying(50)''
      else if length (status a) > 20 then Some ''value too long for type character varying(20)''
      else None)"

text \<open>
  The row an INSERT writes: the submitted columns, the next value of the sequence as
  primary key, the clock as \<open>created_at\<close>, and no \<open>updated_at\<close> (\<open>onupdate\<close> only).
\<close>

definition new_row :: "store \<Rightarrow> AttendanceV1Base \<Rightarrow> AttendanceRecord" where
  "new_row st a =
     \<lparr>student_name = student_name a, student_id = student_id a, timestamp = timestamp a,
      bluetooth_signal_strength = bluetooth_signal_strength a, status = status a,
      id_col = next_id st, created_at = Some (clock st), updated_at = None\<rparr>"

text \<open>
  One statement of the flush. The accumulator is the store and the primary keys given to
  the inserted objects so far.
\<close>

fun apply_op :: "pending_op \<Rightarrow> store \<times> int list \<Rightarrow> string + store \<times> int list" where
  "apply_op (Insert a) (st, keys) =
     (case check_columns a of
        Some e \<Rightarrow> Inl e
      | None \<Rightarrow> Inr (st\<lparr>rows := rows st @ [new_row st a], next_id := next_id st + 1\<rparr>,
                     keys @ [next_id st]))"
| "apply_op (Delete k) (st, keys) =
     Inr (st\<lparr>rows := filter (\<lambda>r. id_col r \<noteq> k) (rows st)\<rparr>, keys)"

fun flush :: "pending_op list \<Rightarrow> store \<times> int list \<Rightarrow> string + store \<times> int list" where
  "flush [] acc = Inr acc"
| "flush (p # ps) acc =
     (case apply_op p acc of Inl e \<Rightarrow> Inl e | Inr acc' \<Rightarrow> flush ps acc')"

text \<open>
  \<open>db.commit()\<close>. An exception is the left summand: the session as the exception leaves
  it, and the text of the exception. A failed commit changes nothing in the store and
  leaves the session's changes pending.
\<close>

definition commit :: "Session \<Rightarrow> (Session \<times> string) + (Session \<times> int list)" where
  "commit db =
     (case commit_fault (bind db) of
        Some e \<Rightarrow> Inl (db, e)
      | None \<Rightarrow>
          (case flush (pending db) (bind db, []) of
             Inl e \<Rightarrow> Inl (db, e)
           | Inr (st, keys) \<Rightarrow> Inr (\<lparr>bind = st, pending = []\<rparr>, keys)))"

text \<open>
  \<open>db.refresh(obj)\<close> reads the row of the object's primary key again, with a SELECT of
  its own after the commit: it raises when the persistence layer fails at that moment,
  and the ORM raises when the row is not there.
\<close>

definition refresh :: "Session \<Rightarrow> int \<Rightarrow> string + AttendanceRecord" where
  "refresh db k =
     (case refresh_fault (bind db) of
        Some e \<Rightarrow> Inl e
      | None \<Rightarrow>
          (case find (\<lambda>r. id_col r = k) (rows (bind db)) of
             None \<Rightarrow> Inl ''Could not refresh instance''
           | Some r \<Rightarrow> Inr r))"

section \<open>Data access layer (crud.py)\<close>

text \<open>
  \<open>create_attendance_record\<close>: build the object from the schema's fields, then
  \<open>add\<close>, \<open>commit\<close>, \<open>refresh\<close>; on any exception \<open>rollback\<close> and raise it again.
\<close>

definition create_attendance_record ::
  "Session \<Rightarrow> AttendanceV1Create \<Rightarrow> (Session \<times> string) + (Session \<times> AttendanceRecord)" where
  "create_attendance_record db attendance =
     (let db_attendance =
            \<lparr>student_name = student_name attendance, student_id = student_id attendance,
             timestamp = timestamp attendance,
             bluetooth_signal_strength = bluetooth_signal_strength attendance,
             status = status attendance\<rparr>
      in case commit (add db db_attendance) of
           Inl (db1, e) \<Rightarrow> Inl (rollback db1, e)
         | Inr (db1, keys) \<Rightarrow>
             (case refresh db1 (last keys) of
                Inl e \<Rightarrow> Inl (rollback db1, e)
              | Inr r \<Rightarrow> Inr (db1, r)))"

text \<open>Python's truth value of an \<open>Optional[str]\<close>: \<open>None\<close> and the empty string are false.\<close>

fun truthy :: "string option \<Rightarrow> bool" where
  "truthy None = False"
| "truthy (Some s) = (s \<noteq> [])"

text \<open>
  The query builder: \<open>db.query(AttendanceRecord)\<close> is the table, and
  \<open>order_by(desc(timestamp))\<close> sorts by decreasing timestamp (rows with equal timestamps
  stay in table order, one of the orders the database may choose).
\<close>

definition query :: "Session \<Rightarrow> AttendanceRecord list" where
  "query db = rows (bind db)"

definition order_by_desc_timestamp :: "AttendanceRecord list \<Rightarrow> AttendanceRecord list" where
  "order_by_desc_timestamp q = sort_key (\<lambda>r. - timestamp r) q"

text \<open>
  \<open>get_attendance_records\<close>. The filter is applied only when \<open>student_id\<close> (here \<open>sid\<close>) is
  true in Python's sense. The database refuses a negative OFFSET or LIMIT; the exception
  is the left summand.
\<close>

definition get_attendance_records ::
  "Session \<Rightarrow> int \<Rightarrow> int \<Rightarrow> string option \<Rightarrow> string + AttendanceRecord list" where
  "get_attendance_records db skip limit sid =
     (let q0 = query db;
          q1 = (if truthy sid then filter (\<lambda>r. Some (student_id r) = sid) q0 else q0)
      in if skip < 0 then Inl ''OFFSET must not be negative''
         else if limit < 0 then Inl ''LIMIT must not be negative''
         else Inr (take (nat limit) (drop (nat skip) (order_by_desc_timestamp q1))))"

definition get_attendance_by_id :: "Session \<Rightarrow> int \<Rightarrow> AttendanceRecord option" where
  "get_attendance_by_id db record_id = find (\<lambda>r. id_col r = record_id) (query db)"

definition get_total_count :: "Session \<Rightarrow> string option \<Rightarrow> int" where
  "get_total_count db sid =
     (let q0 = query db;
          q1 = (if truthy sid then filter (\<lambda>r. Some (student_id r) = sid) q0 else q0)
      in int (length q1))"

text \<open>
  \<open>delete_attendance_record\<close>: no \<open>try\<close> here, so an exception of the commit leaves the
  function as it is, with the deletion still pending in the session.
\<close>

definition delete_attendance_record ::
  "Session \<Rightarrow> int \<Rightarrow> (Session \<times> string) + (Session \<times> bool)" where
  "delete_attendance_record db record_id =
     (case get_attendance_by_id db record_id of
        Some record \<Rightarrow>
          (case commit (delete db record) of
             Inl (db1, e) \<Rightarrow> Inl (db1, e)
           | Inr (db1, keys) \<Rightarrow> Inr (db1, True))
      | None \<Rightarrow> Inr (db, False))"

section \<open>Validation layer (schemas.py)\<close>

text \<open>
  A request body as the JSON decoder hands it to the schema: every field may be absent.
  The timestamp arrives as text. The conversions of the validation library from text
  (to a \<open>datetime\<close>, and to the \<open>int\<close> of a path parameter) are parameters of the model.
\<close>

record payload =
  p_student_name :: "string option"
  p_student_id :: "string option"
  p_timestamp :: "string option"
  p_bluetooth_signal_strength :: "int option"
  p_status :: "string option"

record conv =
  parse_datetime :: "string \<Rightarrow> datetime option"
  parse_int :: "string \<Rightarrow> int option"

text \<open>A validation error: the field and the kind of error.\<close>

datatype field_error = FieldError string string

text \<open>\<open>Field(..., min_length=lo, max_length=hi)\<close> on a \<open>str\<close>.\<close>

definition str_field :: "string \<Rightarrow> nat \<Rightarrow> nat \<Rightarrow> string option \<Rightarrow> field_error list + string" where
  "str_field loc lo hi v =
     (case v of
        None \<Rightarrow> Inl [FieldError loc ''missing'']
      | Some s \<Rightarrow>
          if length s < lo then Inl [FieldError loc ''string_too_short'']
          else if length s > hi then Inl [FieldError loc ''string_too_long'']
          else Inr s)"

text \<open>\<open>timestamp: datetime = Field(...)\<close>.\<close>

definition datetime_field :: "conv \<Rightarrow> string \<Rightarrow> string option \<Rightarrow> field_error list + datetime" where
  "datetime_field cv loc v =
     (case v of
        None \<Rightarrow> Inl [FieldError loc ''missing'']
      | Some s \<Rightarrow>
          (case parse_datetime cv s of
             None \<Rightarrow> Inl [FieldError loc ''datetime_from_date_parsing'']
           | Some t \<Rightarrow> Inr t))"

text \<open>\<open>Optional[int] = Field(None, ge=lo, le=hi)\<close>: an absent value is accepted as \<open>None\<close>.\<close>

definition opt_int_field :: "string \<Rightarrow> int \<Rightarrow> int \<Rightarrow> int option \<Rightarrow> field_error list + int option" where
  "opt_int_field loc lo hi v =
     (case v of
        None \<Rightarrow> Inr None
      | Some n \<Rightarrow>
          if n < lo then Inl [FieldError loc ''greater_than_equal'']
          else if n > hi then Inl [FieldError loc ''less_than_equal'']
          else Inr (Some n))"

text \<open>
  \<open>status: str = Field(..., pattern=r"^(present|absent|late)$")\<close>. The pattern is
  anchored at both ends of the text, so it matches the three words and nothing else.
\<close>

definition status_pattern :: "string \<Rightarrow> bool" where
  "status_pattern s = (s = ''present'' \<or> s = ''absent'' \<or> s = ''late'')"

definition status_field :: "string \<Rightarrow> string option \<Rightarrow> field_error list + string" where
  "status_field loc v =
     (case v of
        None \<Rightarrow> Inl [FieldError loc ''missing'']
      | Some s \<Rightarrow> if status_pattern s then Inr s else Inl [FieldError loc ''string_pattern_mismatch''])"

fun errors_of :: "field_error list + 'a \<Rightarrow> field_error list" where
  "errors_of (Inl es) = es"
| "errors_of (Inr v) = []"

text \<open>
  Validation of a body against \<open>AttendanceV1Create\<close>: every field is checked and all
  errors are reported; fields the schema does not name are not part of \<open>payload\<close>
  (\<open>extra='ignore'\<close>).
\<close>

definition validate_AttendanceV1Create ::
  "conv \<Rightarrow> payload \<Rightarrow> field_error list + AttendanceV1Create" where
  "validate_AttendanceV1Create cv p =
     (let n = str_field ''student_name'' 1 100 (p_student_name p);
          i = str_field ''student_id'' 1 50 (p_student_id p);
          t = datetime_field cv ''timestamp'' (p_timestamp p);
          b = opt_int_field ''bluetooth_signal_strength'' (- 100) 0 (p_bluetooth_signal_strength p);
          s = status_field ''status'' (p_status p)
      in case (n, i, t, b, s) of
           (Inr n', Inr i', Inr t', Inr b', Inr s') \<Rightarrow>
             Inr \<lparr>student_name = n', student_id = i', timestamp = t',
                  bluetooth_signal_strength = b', status = s'\<rparr>
         | _ \<Rightarrow> Inl (errors_of n @ errors_of i @ errors_of t @ errors_of b @ errors_of s))"

section \<open>HTTP responses\<close>

datatype content =
    Message string
  | Detail string
  | ValidationErrors "field_error list"
  | RecordBody AttendanceRecord
  | ListBody int "AttendanceRecord list"
  | Json "(string \<times> string) list"
  | Empty

datatype response = Response (status_code: nat) (content: content)

text \<open>Python's \<open>str\<close> of an \<open>int\<close>, as an f-string writes it.\<close>

fun str_nat :: "nat \<Rightarrow> string" where
  "str_nat n =
     (if n < 10 then [''0123456789'' ! n]
      else str_nat (n div 10) @ [''0123456789'' ! (n mod 10)])"

declare str_nat.simps [simp del]

definition str_int :: "int \<Rightarrow> string" where
  "str_int i = (if i < 0 then CHR ''-'' # str_nat (nat (- i)) else str_nat (nat i))"

section \<open>Version 1 routes (routers/attendance_v1.py)\<close>

text \<open>
  Each handler gets the request's session and returns it with the response. An
  \<open>HTTPException\<close> is the response it stands for.
\<close>

definition create_attendance :: "Session \<Rightarrow> AttendanceV1Create \<Rightarrow> Session \<times> response" where
  "create_attendance db attendance =
     (case create_attendance_record db attendance of
        Inr (db1, db_record) \<Rightarrow>
          (db1, Response 201 (Message ''Attendance record stored successfully''))
      | Inl (db1, e) \<Rightarrow>
          (db1, Response 500 (Detail (''Failed to store attendance record: '' @ e))))"

definition get_attendance_list ::
  "Session \<Rightarrow> int \<Rightarrow> int \<Rightarrow> string option \<Rightarrow> Session \<times> response" where
  "get_attendance_list db skip limit sid =
     (case get_attendance_records db skip limit sid of
        Inr records \<Rightarrow>
          (let total = get_total_count db sid
           in (db, Response 200 (ListBody total records)))
      | Inl e \<Rightarrow>
          (db, Response 500 (Detail (''Failed to retrieve attendance records: '' @ e))))"

text \<open>
  The route \<open>get_attendance_by_id\<close> of the router (the name is taken by crud.py). The
  query of the model raises nothing, so the handler's last \<open>except\<close> has no case here.
\<close>

definition get_attendance_by_id_v1 :: "Session \<Rightarrow> int \<Rightarrow> Session \<times> response" where
  "get_attendance_by_id_v1 db record_id =
     (case get_attendance_by_id db record_id of
        None \<Rightarrow>
          (db, Response 404 (Detail (''Attendance record with ID '' @ str_int record_id @ '' not found'')))
      | Some record \<Rightarrow> (db, Response 200 (RecordBody record)))"

definition delete_attendance :: "Session \<Rightarrow> int \<Rightarrow> Session \<times> response" where
  "delete_attendance db record_id =
     (case delete_attendance_record db record_id of
        Inr (db1, deleted) \<Rightarrow>
          if \<not> deleted then
            (db1, Response 404 (Detail (''Attendance record with ID '' @ str_int record_id @ '' not found'')))
          else (db1, Response 200 (Message ''Attendance record deleted successfully''))
      | Inl (db1, e) \<Rightarrow>
          (db1, Response 500 (Detail (''Failed to delete attendance record: '' @ e))))"

section \<open>Version 2 routes (routers/attendance_v2.py)\<close>

text \<open>\<open>AttendanceV2Create\<close> has no field: every JSON object validates to the same value.\<close>

type_synonym AttendanceV2Create = unit

definition create_attendance_v2 :: "Session \<Rightarrow> AttendanceV2Create \<Rightarrow> Session \<times> response" where
  "create_attendance_v2 db attendance =
     (db, Response 501 (Detail ''API version 2 is not yet implemented. Please use /api/v1/attendance/''))"

definition get_attendance_list_v2 :: "Session \<Rightarrow> Session \<times> response" where
  "get_attendance_list_v2 db =
     (db, Response 501 (Detail ''API version 2 is not yet implemented. Please use /api/v1/attendance/''))"

section \<open>The application (main.py) and the handling of a request\<close>

text \<open>
  Modelled from the spec: \<open>database.get_db\<close>, the dependency that hands each request its
  session, is not among the sources. The spec (design notes) has one session per
  request, acquired at its start and released on every exit path; a released session's
  uncommitted changes are gone.
\<close>

definition get_db :: "store \<Rightarrow> Session" where
  "get_db st = \<lparr>bind = st, pending = []\<rparr>"

definition close :: "Session \<Rightarrow> store" where
  "close db = bind db"

datatype http_method = GET | POST | PUT | DELETE

record request =
  req_method :: http_method
  req_path :: string
  q_skip :: "int option"
  q_limit :: "int option"
  q_student_id :: "string option"
  json_body :: "payload option"

datatype endpoint =
    CreateAttendance | GetAttendanceList | GetAttendanceById | DeleteAttendance
  | CreateAttendanceV2 | GetAttendanceListV2
  | Root | HealthCheck

type_synonym route = "http_method \<times> string \<times> endpoint"

text \<open>The decorators of the two routers, in the order of the files.\<close>

definition attendance_v1_router :: "route list" where
  "attendance_v1_router =
     [(POST, ''/attendance/'', CreateAttendance),
      (GET, ''/attendance/'', GetAttendanceList),
      (GET, ''/attendance/{record_id}'', GetAttendanceById),
      (DELETE, ''/attendance/{record_id}'', DeleteAttendance)]"

definition attendance_v2_router :: "route list" where
  "attendance_v2_router =
     [(POST, ''/attendance/'', CreateAttendanceV2),
      (GET, ''/attendance/'', GetAttendanceListV2)]"

definition include_router :: "route list \<Rightarrow> string \<Rightarrow> route list" where
  "include_router router prefix = map (\<lambda>(m, p, e). (m, prefix @ p, e)) router"

text \<open>
  The routes of \<open>app\<close> in main.py: the version 1 router under \<open>/api/v1\<close>, then the two
  health endpoints. main.py makes no other \<open>include_router\<close> call.
\<close>

definition app_routes :: "route list" where
  "app_routes =
     include_router attendance_v1_router ''/api/v1''
     @ [(GET, ''/'', Root), (GET, ''/api/health'', HealthCheck)]"

text \<open>
  Matching a path against a route's pattern, segment by segment: a segment \<open>{name}\<close>
  of the pattern takes any non-empty segment of the path, any other segment must be
  equal. The result is the path parameters.
\<close>

fun split_path :: "string \<Rightarrow> string list" where
  "split_path [] = [[]]"
| "split_path (c # cs) =
     (if c = CHR ''/'' then [] # split_path cs
      else (case split_path cs of seg # segs \<Rightarrow> (c # seg) # segs | [] \<Rightarrow> [[c]]))"

fun match_segments :: "string list \<Rightarrow> string list \<Rightarrow> (string \<times> string) list option" where
  "match_segments [] [] = Some []"
| "match_segments (p # ps) (s # ss) =
     (if p \<noteq> [] \<and> hd p = CHR ''{'' then
        (if s = [] then None
         else map_option ((#) (butlast (tl p), s)) (match_segments ps ss))
      else if p = s then match_segments ps ss
      else None)"
| "match_segments _ _ = None"

definition match_path :: "string \<Rightarrow> string \<Rightarrow> (string \<times> string) list option" where
  "match_path pattern path = match_segments (split_path pattern) (split_path path)"

text \<open>
  The router's decision: the first route that matches path and method; otherwise
  "method not allowed" when some route matches the path alone; otherwise a redirect
  when the path with its trailing slash added or removed matches a route; otherwise
  "not found".
\<close>

datatype resolution =
    Matched endpoint "(string \<times> string) list"
  | MethodNotAllowed
  | RedirectSlash
  | NotFound

fun full_match :: "route list \<Rightarrow> http_method \<Rightarrow> string \<Rightarrow> resolution option" where
  "full_match [] m path = None"
| "full_match ((m', pattern, e) # rs) m path =
     (case match_path pattern path of
        Some params \<Rightarrow> if m' = m then Some (Matched e params) else full_match rs m path
      | None \<Rightarrow> full_match rs m path)"

definition path_known :: "route list \<Rightarrow> string \<Rightarrow> bool" where
  "path_known rs path = list_ex (\<lambda>(m, pattern, e). match_path pattern path \<noteq> None) rs"

definition toggle_slash :: "string \<Rightarrow> string" where
  "toggle_slash path = (if path \<noteq> [] \<and> last path = CHR ''/'' then butlast path else path @ ''/'')"

definition resolve :: "route list \<Rightarrow> http_method \<Rightarrow> string \<Rightarrow> resolution" where
  "resolve rs m path =
     (case full_match rs m path of
        Some r \<Rightarrow> r
      | None \<Rightarrow>
          if path_known rs path then MethodNotAllowed
          else if path \<noteq> ''/'' \<and> path_known rs (toggle_slash path) then RedirectSlash
          else NotFound)"

text \<open>
  The \<open>Query\<close> declarations of the list route: \<open>skip\<close> (default 0, \<open>ge=0\<close>) and
  \<open>limit\<close> (default 100, \<open>ge=1\<close>, \<open>le=500\<close>).
\<close>

definition query_skip :: "int option \<Rightarrow> field_error list + int" where
  "query_skip v =
     (case v of
        None \<Rightarrow> Inr 0
      | Some n \<Rightarrow> if n < 0 then Inl [FieldError ''skip'' ''greater_than_equal''] else Inr n)"

definition query_limit :: "int option \<Rightarrow> field_error list + int" where
  "query_limit v =
     (case v of
        None \<Rightarrow> Inr 100
      | Some n \<Rightarrow>
          if n < 1 then Inl [FieldError ''limit'' ''greater_than_equal'']
          else if n > 500 then Inl [FieldError ''limit'' ''less_than_equal'']
          else Inr n)"

definition path_record_id :: "conv \<Rightarrow> (string \<times> string) list \<Rightarrow> field_error list + int" where
  "path_record_id cv params =
     (case map_of params ''record_id'' of
        None \<Rightarrow> Inl [FieldError ''record_id'' ''missing'']
      | Some s \<Rightarrow>
          (case parse_int cv s of
             None \<Rightarrow> Inl [FieldError ''record_id'' ''int_parsing'']
           | Some i \<Rightarrow> Inr i))"

text \<open>
  Running a handler inside its request: the session is acquired from the store, the
  handler runs, the session is released.
\<close>

definition with_session :: "store \<Rightarrow> (Session \<Rightarrow> Session \<times> response) \<Rightarrow> store \<times> response" where
  "with_session st handler = (case handler (get_db st) of (db, resp) \<Rightarrow> (close db, resp))"

definition unprocessable :: "store \<Rightarrow> field_error list \<Rightarrow> store \<times> response" where
  "unprocessable st errs = (st, Response 422 (ValidationErrors errs))"

text \<open>
  One endpoint of the framework: the parameters are validated against their
  declarations (a failure is answered 422 and the handler is not called), then the
  handler runs.
\<close>

fun call_endpoint ::
  "conv \<Rightarrow> store \<Rightarrow> endpoint \<Rightarrow> (string \<times> string) list \<Rightarrow> request \<Rightarrow> store \<times> response" where
  "call_endpoint cv st CreateAttendance params req =
     (case json_body req of
        None \<Rightarrow> unprocessable st [FieldError ''body'' ''missing'']
      | Some p \<Rightarrow>
          (case validate_AttendanceV1Create cv p of
             Inl errs \<Rightarrow> unprocessable st errs
           | Inr attendance \<Rightarrow> with_session st (\<lambda>db. create_attendance db attendance)))"
| "call_endpoint cv st GetAttendanceList params req =
     (case (query_skip (q_skip req), query_limit (q_limit req)) of
        (Inr skip, Inr limit) \<Rightarrow>
          with_session st (\<lambda>db. get_attendance_list db skip limit (q_student_id req))
      | (s, l) \<Rightarrow> unprocessable st (errors_of s @ errors_of l))"
| "call_endpoint cv st GetAttendanceById params req =
     (case path_record_id cv params of
        Inl errs \<Rightarrow> unprocessable st errs
      | Inr record_id \<Rightarrow> with_session st (\<lambda>db. get_attendance_by_id_v1 db record_id))"
| "call_endpoint cv st DeleteAttendance params req =
     (case path_record_id cv params of
        Inl errs \<Rightarrow> unprocessable st errs
      | Inr record_id \<Rightarrow> with_session st (\<lambda>db. delete_attendance db record_id))"
| "call_endpoint cv st CreateAttendanceV2 params req =
     (case json_body req of
        None \<Rightarrow> unprocessable st [FieldError ''body'' ''missing'']
      | Some p \<Rightarrow> with_session st (\<lambda>db. create_attendance_v2 db ()))"
| "call_endpoint cv st GetAttendanceListV2 params req =
     with_session st get_attendance_list_v2"
| "call_endpoint cv st Root params req =
     (st, Response 200 (Json [(''status'', ''online''),
                              (''message'', ''Mobile Attendance System API''),
                              (''version'', ''1.0.0'')]))"
| "call_endpoint cv st HealthCheck params req =
     (st, Response 200 (Json [(''status'', ''healthy''), (''database'', ''connected''),
                              (''api_version'', ''v1'')]))"

text \<open>The application: route the request, then answer it.\<close>

definition app :: "conv \<Rightarrow> store \<Rightarrow> request \<Rightarrow> store \<times> response" where
  "app cv st req =
     (case resolve app_routes (req_method req) (req_path req) of
        Matched e params \<Rightarrow> call_endpoint cv st e params req
      | MethodNotAllowed \<Rightarrow> (st, Response 405 (Detail ''Method Not Allowed''))
      | RedirectSlash \<Rightarrow> (st, Response 307 Empty)
      | NotFound \<Rightarrow> (st, Response 404 (Detail ''Not Found'')))"

section \<open>Predicates of the properties\<close>

text \<open>
  The invariant of the store: primary keys are unique, and every key in the table was
  handed out by the sequence already.
\<close>

definition store_ok :: "store \<Rightarrow> bool" where
  "store_ok st =
     (distinct (map id_col (rows st)) \<and> list_all (\<lambda>r. id_col r < next_id st) (rows st))"

text \<open>A value of the create schema that satisfies the \<open>Field\<close> constraints of schemas.py.\<close>

definition valid_create :: "AttendanceV1Create \<Rightarrow> bool" where
  "valid_create a =
     (1 \<le> length (student_name a) \<and> length (student_name a) \<le> 100 \<and>
      1 \<le> length (student_id a) \<and> length (student_id a) \<le> 50 \<and>
      (case bluetooth_signal_strength a of None \<Rightarrow> True | Some n \<Rightarrow> - 100 \<le> n \<and> n \<le> 0) \<and>
      status_pattern (status a))"

text \<open>
  The rows a list request is about, before ordering and paging: the query of
  \<open>get_attendance_records\<close> and \<open>get_total_count\<close> after their \<open>if student_id:\<close>.
\<close>

definition matching_rows :: "Session \<Rightarrow> string option \<Rightarrow> AttendanceRecord list" where
  "matching_rows db sid =
     (if truthy sid then filter (\<lambda>r. Some (student_id r) = sid) (query db) else query db)"

text \<open>
  A body that breaks a field constraint of the create schema, in the words of the
  specification: a name or student id that is empty or too long, a timestamp that does
  not parse, a signal strength that is present and outside \<open>[-100, 0]\<close>, a status
  that is not one of the three words.
\<close>

definition violates_constraint :: "conv \<Rightarrow> payload \<Rightarrow> bool" where
  "violates_constraint cv p =
     ((case p_student_name p of None \<Rightarrow> False | Some s \<Rightarrow> s = [] \<or> length s > 100) \<or>
      (case p_student_id p of None \<Rightarrow> False | Some s \<Rightarrow> s = [] \<or> length s > 50) \<or>
      (case p_timestamp p of None \<Rightarrow> False | Some s \<Rightarrow> parse_datetime cv s = None) \<or>
      (case p_bluetooth_signal_strength p of None \<Rightarrow> False | Some n \<Rightarrow> n < - 100 \<or> n > 0) \<or>
      (case p_status p of None \<Rightarrow> False
       | Some s \<Rightarrow> s \<noteq> ''present'' \<and> s \<noteq> ''absent'' \<and> s \<noteq> ''late''))"

text \<open>
  Concrete values for the examples below: the conversions of one timestamp and two
  integers, the record of the example in schemas.py as a stored row, a store that holds
  it, and a request without parameters.
\<close>

definition example_conv :: conv where
  "example_conv =
     \<lparr>parse_datetime = (\<lambda>s. if s = ''2025-11-08T10:30:00'' then Some 1762597800 else None),
      parse_int = (\<lambda>s. if s = ''1'' then Some 1 else if s = ''42'' then Some 42 else None)\<rparr>"

definition example_row :: AttendanceRecord where
  "example_row =
     \<lparr>student_name = ''John Doe'', student_id = ''STU123'', timestamp = 1762597800,
      bluetooth_signal_strength = Some (- 45), status = ''present'',
      id_col = 1, created_at = Some 1762597805, updated_at = None\<rparr>"

definition example_store :: store where
  "example_store = \<lparr>rows = [example_row], next_id = 2, clock = 1762597900, commit_fault = None, refresh_fault = None\<rparr>"

definition example_request :: "http_method \<Rightarrow> string \<Rightarrow> request" where
  "example_request m path =
     \<lparr>req_method = m, req_path = path, q_skip = None, q_limit = None, q_student_id = None,
      json_body = None\<rparr>"

section \<open>Lemmas on the store\<close>

lemma base_copy:
  "\<lparr>student_name = student_name a, student_id = student_id a, timestamp = timestamp a,
    bluetooth_signal_strength = bluetooth_signal_strength a, status = status a\<rparr>
   = (a::AttendanceV1Base)"
  by (cases a) simp

lemma valid_create_columns: "valid_create a \<Longrightarrow> check_columns a = None"
  by (auto simp: valid_create_def check_columns_def status_pattern_def)

lemma find_id_append_new:
  assumes "list_all (\<lambda>r. id_col r < k) xs" and "id_col r = k"
  shows "find (\<lambda>x. id_col x = k) (xs @ [r]) = Some r"
  using assms by (induction xs) auto

lemma find_id_absent:
  "k \<notin> id_col ` set xs \<Longrightarrow> find (\<lambda>x. id_col x = k) xs = None"
  by (induction xs) auto

lemma commit_add_fresh:
  assumes "commit_fault st = None" and "check_columns a = None"
  shows "commit (add (get_db st) a) =
           Inr (get_db (st\<lparr>rows := rows st @ [new_row st a], next_id := next_id st + 1\<rparr>),
                [next_id st])"
  using assms by (simp add: commit_def add_def get_db_def)

lemma create_attendance_record_ok:
  assumes "store_ok st" and "commit_fault st = None" and "refresh_fault st = None"
    and "check_columns a = None"
  shows "create_attendance_record (get_db st) a =
           Inr (get_db (st\<lparr>rows := rows st @ [new_row st a], next_id := next_id st + 1\<rparr>),
                new_row st a)"
proof -
  have "find (\<lambda>x. id_col x = next_id st) (rows st @ [new_row st a]) = Some (new_row st a)"
    using assms(1) by (intro find_id_append_new) (simp_all add: store_ok_def new_row_def)
  then have "refresh (get_db (st\<lparr>rows := rows st @ [new_row st a], next_id := next_id st + 1\<rparr>))
               (next_id st) = Inr (new_row st a)"
    using assms(3) by (simp add: refresh_def get_db_def)
  then show ?thesis
    using assms(2,4)
    by (simp add: create_attendance_record_def base_copy commit_add_fresh)
qed

text \<open>The invariant holds for the empty table and is kept by an insertion.\<close>

lemma store_ok_empty: "store_ok \<lparr>rows = [], next_id = n, clock = c, commit_fault = f, refresh_fault = g\<rparr>"
  by (simp add: store_ok_def)

lemma store_ok_create:
  assumes "store_ok st"
  shows "store_ok (st\<lparr>rows := rows st @ [new_row st a], next_id := next_id st + 1\<rparr>)"
proof -
  have "next_id st \<notin> id_col ` set (rows st)"
    using assms by (auto simp: store_ok_def list_all_iff)
  moreover have "list_all (\<lambda>r. id_col r < next_id st + 1) (rows st)"
    using assms by (auto simp: store_ok_def list_all_iff)
  ultimately show ?thesis
    using assms by (simp add: store_ok_def new_row_def)
qed

text \<open>Deleting by primary key.\<close>

lemma find_id_present:
  "k \<in> id_col ` set xs \<Longrightarrow> \<exists>r. find (\<lambda>x. id_col x = k) xs = Some r \<and> id_col r = k"
  by (induction xs) auto

lemma filter_out_absent:
  "k \<notin> id_col ` set xs \<Longrightarrow> filter (\<lambda>x. id_col x \<noteq> k) xs = xs"
  by (induction xs) auto

lemma length_filter_out_id:
  assumes "distinct (map id_col xs)" and "k \<in> id_col ` set xs"
  shows "length (filter (\<lambda>x. id_col x \<noteq> k) xs) + 1 = length xs"
  using assms
proof (induction xs)
  case Nil
  then show ?case by simp
next
  case (Cons x xs)
  show ?case
  proof (cases "id_col x = k")
    case True
    then have "k \<notin> id_col ` set xs" using Cons.prems(1) by auto
    then show ?thesis using True by (simp add: filter_out_absent)
  next
    case False
    then have "k \<in> id_col ` set xs" using Cons.prems(2) by auto
    then show ?thesis using False Cons.IH Cons.prems(1) by simp
  qed
qed

lemma commit_delete_fresh:
  assumes "commit_fault st = None"
  shows "commit (delete (get_db st) r) =
           Inr (get_db (st\<lparr>rows := filter (\<lambda>x. id_col x \<noteq> id_col r) (rows st)\<rparr>), [])"
  using assms by (simp add: commit_def delete_def get_db_def)

lemma store_ok_delete:
  assumes "store_ok st"
  shows "store_ok (st\<lparr>rows := filter (\<lambda>x. id_col x \<noteq> k) (rows st)\<rparr>)"
  using assms by (auto simp: store_ok_def list_all_iff distinct_map_filter)

lemma delete_absent:
  assumes "record_id \<notin> id_col ` set (rows st)"
  shows "delete_attendance_record (get_db st) record_id = Inr (get_db st, False)"
  using assms
  by (simp add: delete_attendance_record_def get_attendance_by_id_def query_def get_db_def
      find_id_absent)

lemma delete_present:
  assumes "commit_fault st = None" and "record_id \<in> id_col ` set (rows st)"
  shows "delete_attendance_record (get_db st) record_id =
           Inr (get_db (st\<lparr>rows := filter (\<lambda>r. id_col r \<noteq> record_id) (rows st)\<rparr>), True)"
proof -
  obtain r where r: "find (\<lambda>x. id_col x = record_id) (rows st) = Some r" "id_col r = record_id"
    using find_id_present [OF assms(2)] by blast
  then have "get_attendance_by_id (get_db st) record_id = Some r"
    by (simp add: get_attendance_by_id_def query_def get_db_def)
  then show ?thesis
    using r(2) assms(1) by (simp add: delete_attendance_record_def commit_delete_fresh)
qed

text \<open>Ordering and paging.\<close>

lemma sorted_desc_order_by:
  "sorted_wrt (\<lambda>a b. timestamp b \<le> timestamp a) (order_by_desc_timestamp q)"
proof -
  have "sorted (map (\<lambda>r. - timestamp r) (sort_key (\<lambda>r. - timestamp r) q))"
    by (rule sorted_sort_key)
  then show ?thesis
    by (simp add: order_by_desc_timestamp_def sorted_map)
qed

lemma mset_order_by: "mset (order_by_desc_timestamp q) = mset q"
  by (simp add: order_by_desc_timestamp_def)

lemma length_order_by: "length (order_by_desc_timestamp q) = length q"
  by (simp add: order_by_desc_timestamp_def)

lemma get_attendance_records_eq:
  assumes "0 \<le> skip" and "0 \<le> limit"
  shows "get_attendance_records db skip limit sid =
           Inr (take (nat limit) (drop (nat skip) (order_by_desc_timestamp (matching_rows db sid))))"
  using assms by (simp add: get_attendance_records_def matching_rows_def)

lemma get_total_count_eq: "get_total_count db sid = int (length (matching_rows db sid))"
  by (simp add: get_total_count_def matching_rows_def)

section \<open>Lemmas on validation, routing and failures\<close>

lemma str_field_errors: "str_field loc lo hi v = Inl es \<Longrightarrow> es \<noteq> []"
  by (auto simp: str_field_def split: option.splits if_splits)

lemma datetime_field_errors: "datetime_field cv loc v = Inl es \<Longrightarrow> es \<noteq> []"
  by (auto simp: datetime_field_def split: option.splits)

lemma opt_int_field_errors: "opt_int_field loc lo hi v = Inl es \<Longrightarrow> es \<noteq> []"
  by (auto simp: opt_int_field_def split: option.splits if_splits)

lemma status_field_errors: "status_field loc v = Inl es \<Longrightarrow> es \<noteq> []"
  by (auto simp: status_field_def split: option.splits if_splits)

lemma errors_of_Inl: "errors_of x \<noteq> [] \<longleftrightarrow> (\<exists>es. x = Inl es \<and> es \<noteq> [])"
  by (cases x) auto

lemma validate_cases:
  "validate_AttendanceV1Create cv p =
     (let n = str_field ''student_name'' 1 100 (p_student_name p);
          i = str_field ''student_id'' 1 50 (p_student_id p);
          t = datetime_field cv ''timestamp'' (p_timestamp p);
          b = opt_int_field ''bluetooth_signal_strength'' (- 100) 0 (p_bluetooth_signal_strength p);
          s = status_field ''status'' (p_status p)
      in if isl n \<or> isl i \<or> isl t \<or> isl b \<or> isl s
         then Inl (errors_of n @ errors_of i @ errors_of t @ errors_of b @ errors_of s)
         else Inr \<lparr>student_name = projr n, student_id = projr i, timestamp = projr t,
                  bluetooth_signal_strength = projr b, status = projr s\<rparr>)"
  unfolding validate_AttendanceV1Create_def Let_def
  by (simp split: sum.splits)

lemma validate_rejects:
  assumes "violates_constraint cv p"
  shows "\<exists>errs. errs \<noteq> [] \<and> validate_AttendanceV1Create cv p = Inl errs"
proof -
  let ?n = "str_field ''student_name'' 1 100 (p_student_name p)"
  let ?i = "str_field ''student_id'' 1 50 (p_student_id p)"
  let ?t = "datetime_field cv ''timestamp'' (p_timestamp p)"
  let ?b = "opt_int_field ''bluetooth_signal_strength'' (- 100) 0 (p_bluetooth_signal_strength p)"
  let ?s = "status_field ''status'' (p_status p)"
  have some: "isl ?n \<or> isl ?i \<or> isl ?t \<or> isl ?b \<or> isl ?s"
    using assms
    by (auto simp: violates_constraint_def str_field_def datetime_field_def opt_int_field_def
        status_field_def status_pattern_def split: option.splits)
  then have "errors_of ?n @ errors_of ?i @ errors_of ?t @ errors_of ?b @ errors_of ?s \<noteq> []"
    using str_field_errors datetime_field_errors opt_int_field_errors status_field_errors
    by (auto simp: isl_def)
  then show ?thesis
    using some by (simp add: validate_cases Let_def)
qed

lemma validate_valid:
  assumes "validate_AttendanceV1Create cv p = Inr a"
  shows "valid_create a \<and> \<not> violates_constraint cv p"
  using assms
  by (auto simp: validate_AttendanceV1Create_def Let_def valid_create_def violates_constraint_def
      str_field_def datetime_field_def opt_int_field_def status_field_def status_pattern_def
      Suc_le_eq split: sum.splits option.splits if_splits)

lemma resolve_post_v1: "resolve app_routes POST ''/api/v1/attendance/'' = Matched CreateAttendance []"
  by code_simp

lemma resolve_v2: "resolve app_routes m ''/api/v2/attendance/'' = NotFound"
  by (cases m; code_simp)

lemma resolve_v2_if_included:
  "resolve (app_routes @ include_router attendance_v2_router ''/api/v2'') POST ''/api/v2/attendance/''
     = Matched CreateAttendanceV2 [] \<and>
   resolve (app_routes @ include_router attendance_v2_router ''/api/v2'') GET ''/api/v2/attendance/''
     = Matched GetAttendanceListV2 []"
  by code_simp

lemma find_append_last: "P r \<Longrightarrow> find P (xs @ [r]) \<noteq> None"
  by (induction xs) auto

lemma commit_add_raises:
  assumes "commit (add (get_db st) a) = Inl (dbc, e)"
  shows "dbc = add (get_db st) a"
  using assms by (auto simp: commit_def split: option.splits sum.splits)

lemma create_commit_raises:
  assumes "commit (add (get_db st) a) = Inl (dbc, e)"
  shows "create_attendance_record (get_db st) a = Inl (get_db st, e)"
proof -
  have "dbc = add (get_db st) a"
    using assms by (rule commit_add_raises)
  then have "rollback dbc = get_db st"
    by (simp add: rollback_def add_def get_db_def)
  then show ?thesis
    using assms by (simp add: create_attendance_record_def base_copy)
qed

lemma create_refresh_fault:
  assumes "commit_fault st = None" and "check_columns a = None" and "refresh_fault st = Some e"
  shows "create_attendance_record (get_db st) a =
           Inl (get_db (st\<lparr>rows := rows st @ [new_row st a], next_id := next_id st + 1\<rparr>), e)"
proof -
  let ?st1 = "st\<lparr>rows := rows st @ [new_row st a], next_id := next_id st + 1\<rparr>"
  have "refresh (get_db ?st1) (next_id st) = Inl e"
    using assms(3) by (simp add: refresh_def get_db_def)
  moreover have "rollback (get_db ?st1) = get_db ?st1"
    by (simp add: rollback_def get_db_def)
  ultimately show ?thesis
    using assms(1,2) by (simp add: create_attendance_record_def base_copy commit_add_fresh)
qed

lemma create_raises_cases:
  assumes "create_attendance_record (get_db st) a = Inl (db', e)"
  shows "db' = get_db st \<or>
         (commit_fault st = None \<and> check_columns a = None \<and> refresh_fault st = Some e \<and>
          db' = get_db (st\<lparr>rows := rows st @ [new_row st a], next_id := next_id st + 1\<rparr>))"
proof (cases "commit (add (get_db st) a)")
  case (Inl x)
  then obtain dbc f where "commit (add (get_db st) a) = Inl (dbc, f)"
    by (cases x) simp
  then have "create_attendance_record (get_db st) a = Inl (get_db st, f)"
    by (rule create_commit_raises)
  then show ?thesis
    using assms by simp
next
  case (Inr y)
  then have ok: "commit_fault st = None" "check_columns a = None"
    by (auto simp: commit_def add_def get_db_def split: option.splits sum.splits)
  show ?thesis
  proof (cases "refresh_fault st")
    case (Some f)
    then have "create_attendance_record (get_db st) a =
           Inl (get_db (st\<lparr>rows := rows st @ [new_row st a], next_id := next_id st + 1\<rparr>), f)"
      using ok by (intro create_refresh_fault)
    then show ?thesis
      using assms ok Some by simp
  next
    case None
    have "find (\<lambda>x. id_col x = next_id st) (rows st @ [new_row st a]) \<noteq> None"
      by (rule find_append_last) (simp add: new_row_def)
    then obtain r where "find (\<lambda>x. id_col x = next_id st) (rows st @ [new_row st a]) = Some r"
      by blast
    then have "refresh (get_db (st\<lparr>rows := rows st @ [new_row st a], next_id := next_id st + 1\<rparr>))
                 (next_id st) = Inr r"
      using None by (simp add: refresh_def get_db_def)
    then have "create_attendance_record (get_db st) a
                 = Inr (get_db (st\<lparr>rows := rows st @ [new_row st a], next_id := next_id st + 1\<rparr>), r)"
      using ok by (simp add: create_attendance_record_def base_copy commit_add_fresh)
    then show ?thesis
      using assms by simp
  qed
qed

lemma create_commit_fault:
  assumes "commit_fault st = Some e"
  shows "create_attendance_record (get_db st) a = Inl (get_db st, e)"
  using assms
  by (simp add: create_attendance_record_def base_copy commit_def add_def get_db_def rollback_def)

lemma delete_commit_fault:
  assumes "commit_fault st = Some e" and "record_id \<in> id_col ` set (rows st)"
  shows "delete_attendance_record (get_db st) record_id
           = Inl (\<lparr>bind = st, pending = [Delete record_id]\<rparr>, e)"
proof -
  obtain r where r: "find (\<lambda>x. id_col x = record_id) (rows st) = Some r" "id_col r = record_id"
    using find_id_present [OF assms(2)] by blast
  then have "get_attendance_by_id (get_db st) record_id = Some r"
    by (simp add: get_attendance_by_id_def query_def get_db_def)
  then show ?thesis
    using r(2) assms(1)
    by (simp add: delete_attendance_record_def commit_def delete_def get_db_def)
qed

lemma close_get_db: "close (get_db st) = st"
  by (simp add: close_def get_db_def)

lemma create_endpoint_fault:
  assumes "commit_fault st = Some e"
  shows "with_session st (\<lambda>db. create_attendance db a)
           = (st, Response 500 (Detail (''Failed to store attendance record: '' @ e)))"
  by (simp add: with_session_def create_attendance_def create_commit_fault [OF assms] close_get_db)

lemma delete_endpoint_fault:
  assumes "commit_fault st = Some e" and "record_id \<in> id_col ` set (rows st)"
  shows "with_session st (\<lambda>db. delete_attendance db record_id)
           = (st, Response 500 (Detail (''Failed to delete attendance record: '' @ e)))"
  by (simp add: with_session_def delete_attendance_def delete_commit_fault [OF assms] close_def)

lemma create_endpoint_refresh_fault:
  assumes "commit_fault st = None" and "check_columns a = None" and "refresh_fault st = Some e"
  shows "with_session st (\<lambda>db. create_attendance db a)
           = (st\<lparr>rows := rows st @ [new_row st a], next_id := next_id st + 1\<rparr>,
              Response 500 (Detail (''Failed to store attendance record: '' @ e)))"
  by (simp add: with_session_def create_attendance_def create_refresh_fault [OF assms] close_get_db)

section \<open>C1: create, then get by id\<close>

text \<open>
  C1. On a store that satisfies its invariant and on which the persistence layer does not
  raise (neither at the commit nor at the read that follows it), creating a record from a
  valid input succeeds, and \<open>get_attendance_by_id\<close> on the assigned id
  returns the created record: its \<open>student_name\<close>, \<open>student_id\<close>, \<open>timestamp\<close>,
  \<open>bluetooth_signal_strength\<close> and \<open>status\<close> are those of the input, its id is the one the
  sequence assigned, and its \<open>created_at\<close> is set (to the store's clock).
\<close>

theorem create_then_get_by_id:
  assumes "store_ok st" and "commit_fault st = None" and "refresh_fault st = None"
    and "valid_create a"
  shows "\<exists>db1 r.
           create_attendance_record (get_db st) a = Inr (db1, r) \<and>
           get_attendance_by_id db1 (id_col r) = Some r \<and>
           student_name r = student_name a \<and> student_id r = student_id a \<and>
           timestamp r = timestamp a \<and>
           bluetooth_signal_strength r = bluetooth_signal_strength a \<and>
           status r = status a \<and>
           id_col r = next_id st \<and> created_at r = Some (clock st)"
proof -
  let ?r = "new_row st a"
  let ?st1 = "st\<lparr>rows := rows st @ [?r], next_id := next_id st + 1\<rparr>"
  have created: "create_attendance_record (get_db st) a = Inr (get_db ?st1, ?r)"
    using assms by (simp add: create_attendance_record_ok valid_create_columns)
  have "find (\<lambda>x. id_col x = next_id st) (rows st @ [?r]) = Some ?r"
    using assms(1) by (intro find_id_append_new) (simp_all add: store_ok_def new_row_def)
  then have found: "get_attendance_by_id (get_db ?st1) (id_col ?r) = Some ?r"
    by (simp add: get_attendance_by_id_def query_def get_db_def new_row_def)
  show ?thesis
    using created found by (simp add: new_row_def)
qed

theorem create_then_get_by_id_witness:
  "\<exists>db1 r.
     create_attendance_record
       (get_db \<lparr>rows = [], next_id = 1, clock = 5000, commit_fault = None, refresh_fault = None\<rparr>)
       \<lparr>student_name = ''John Doe'', student_id = ''STU123'', timestamp = 1000,
        bluetooth_signal_strength = Some (- 45), status = ''present''\<rparr> = Inr (db1, r) \<and>
     get_attendance_by_id db1 (id_col r) = Some r \<and>
     student_name r = ''John Doe'' \<and> student_id r = ''STU123'' \<and> timestamp r = 1000 \<and>
     bluetooth_signal_strength r = Some (- 45) \<and> status r = ''present'' \<and>
     id_col r = 1 \<and> created_at r = Some 5000"
  using create_then_get_by_id
    [of "\<lparr>rows = [], next_id = 1, clock = 5000, commit_fault = None, refresh_fault = None\<rparr>"
        "\<lparr>student_name = ''John Doe'', student_id = ''STU123'', timestamp = 1000,
          bluetooth_signal_strength = Some (- 45), status = ''present''\<rparr>"]
  by (simp add: store_ok_def valid_create_def status_pattern_def)

section \<open>C10: the empty string as filter\<close>

text \<open>
  C10. With the empty string as \<open>student_id\<close> filter, \<open>get_attendance_records\<close> and
  \<open>get_total_count\<close> return what they return without a filter, and that is not "no
  match": the total is the number of all rows of the table, and for \<open>skip\<close> and \<open>limit\<close>
  not negative the records are all rows of the table sorted by decreasing timestamp,
  without the first \<open>skip\<close> and cut after \<open>limit\<close>. With \<open>skip\<close> 0 and a \<open>limit\<close> that
  is at least the number of rows, the records are all rows of the table, each as often
  as it is there. The list route answers 200 with that total and those records.
\<close>

theorem empty_student_id_is_no_filter:
  "get_attendance_records db skip limit (Some '''') = get_attendance_records db skip limit None \<and>
   get_total_count db (Some '''') = get_total_count db None \<and>
   get_total_count db (Some '''') = int (length (rows (bind db))) \<and>
   get_attendance_list db skip limit (Some '''') = get_attendance_list db skip limit None \<and>
   (0 \<le> skip \<and> 0 \<le> limit \<longrightarrow>
      get_attendance_records db skip limit (Some '''')
        = Inr (take (nat limit) (drop (nat skip) (order_by_desc_timestamp (rows (bind db))))) \<and>
      get_attendance_list db skip limit (Some '''')
        = (db, Response 200
                 (ListBody (int (length (rows (bind db))))
                    (take (nat limit) (drop (nat skip) (order_by_desc_timestamp (rows (bind db)))))))) \<and>
   (int (length (rows (bind db))) \<le> limit \<longrightarrow>
      (\<exists>records. get_attendance_records db 0 limit (Some '''') = Inr records \<and>
                 mset records = mset (rows (bind db)) \<and>
                 sorted_wrt (\<lambda>a b. timestamp b \<le> timestamp a) records))"
proof -
  let ?all = "order_by_desc_timestamp (rows (bind db))"
  have m: "matching_rows db (Some '''') = rows (bind db)"
    by (simp add: matching_rows_def query_def)
  have same: "get_attendance_records db skip limit (Some '''')
                = get_attendance_records db skip limit None"
    by (simp add: get_attendance_records_def)
  have total: "get_total_count db (Some '''') = int (length (rows (bind db)))"
    by (simp add: get_total_count_eq m)
  have total_same: "get_total_count db (Some '''') = get_total_count db None"
    by (simp add: get_total_count_def)
  have route_same: "get_attendance_list db skip limit (Some '''')
                      = get_attendance_list db skip limit None"
    by (simp add: get_attendance_list_def same total_same split: sum.splits)
  have page: "get_attendance_records db k n (Some '''') = Inr (take (nat n) (drop (nat k) ?all))"
    if "0 \<le> k" and "0 \<le> n" for k n
    using that by (simp add: get_attendance_records_eq m)
  have route: "get_attendance_list db skip limit (Some '''')
        = (db, Response 200
                 (ListBody (int (length (rows (bind db)))) (take (nat limit) (drop (nat skip) ?all))))"
    if "0 \<le> skip \<and> 0 \<le> limit"
    using that by (simp add: get_attendance_list_def page total)
  have everything: "\<exists>records. get_attendance_records db 0 limit (Some '''') = Inr records \<and>
                 mset records = mset (rows (bind db)) \<and>
                 sorted_wrt (\<lambda>a b. timestamp b \<le> timestamp a) records"
    if big: "int (length (rows (bind db))) \<le> limit"
  proof -
    have "0 \<le> limit"
      using big by linarith
    then have "get_attendance_records db 0 limit (Some '''') = Inr (take (nat limit) ?all)"
      using page [of 0 limit] by simp
    moreover have "take (nat limit) ?all = ?all"
      using big by (simp add: length_order_by)
    ultimately show ?thesis
      by (simp add: mset_order_by sorted_desc_order_by)
  qed
  show ?thesis
    using same total total_same route_same page [of skip limit] route everything
    by blast
qed

theorem empty_student_id_is_no_filter_witness:
  "get_attendance_records
     (get_db \<lparr>rows = [example_row\<lparr>id_col := 1, student_id := ''STU123'', timestamp := 10\<rparr>,
                       example_row\<lparr>id_col := 2, student_id := ''STU999'', timestamp := 30\<rparr>],
              next_id = 3, clock = 40, commit_fault = None, refresh_fault = None\<rparr>)
     0 100 (Some '''')
     = Inr [example_row\<lparr>id_col := 2, student_id := ''STU999'', timestamp := 30\<rparr>,
            example_row\<lparr>id_col := 1, student_id := ''STU123'', timestamp := 10\<rparr>] \<and>
   get_total_count
     (get_db \<lparr>rows = [example_row\<lparr>id_col := 1, student_id := ''STU123'', timestamp := 10\<rparr>,
                       example_row\<lparr>id_col := 2, student_id := ''STU999'', timestamp := 30\<rparr>],
              next_id = 3, clock = 40, commit_fault = None, refresh_fault = None\<rparr>)
     (Some '''') = 2"
  using empty_student_id_is_no_filter [of
      "get_db \<lparr>rows = [example_row\<lparr>id_col := 1, student_id := ''STU123'', timestamp := 10\<rparr>,
                        example_row\<lparr>id_col := 2, student_id := ''STU999'', timestamp := 30\<rparr>],
               next_id = 3, clock = 40, commit_fault = None, refresh_fault = None\<rparr>" 0 100]
  by (simp add: get_db_def order_by_desc_timestamp_def example_row_def
      get_attendance_records_def get_total_count_def query_def)

section \<open>C7: delete by id\<close>

text \<open>
  C7. On a store that satisfies its invariant and whose commit does not fail,
  \<open>delete_attendance_record\<close> on an id of the table returns true and leaves the table
  without the row of that id and one row shorter, every other row and the rest of the
  store as before; a second call on the same id returns false and changes nothing.
  On an id that is not in the table the function raises nothing, returns false and
  changes nothing, on any store.
\<close>

theorem delete_by_id_idempotent:
  "(store_ok st \<and> commit_fault st = None \<and> record_id \<in> id_col ` set (rows st) \<longrightarrow>
      (let st1 = st\<lparr>rows := filter (\<lambda>r. id_col r \<noteq> record_id) (rows st)\<rparr>
       in delete_attendance_record (get_db st) record_id = Inr (get_db st1, True) \<and>
          length (rows st1) + 1 = length (rows st) \<and>
          record_id \<notin> id_col ` set (rows st1) \<and>
          delete_attendance_record (get_db st1) record_id = Inr (get_db st1, False))) \<and>
   (record_id \<notin> id_col ` set (rows st) \<longrightarrow>
      delete_attendance_record (get_db st) record_id = Inr (get_db st, False))"
proof (intro conjI impI)
  assume "record_id \<notin> id_col ` set (rows st)"
  then show "delete_attendance_record (get_db st) record_id = Inr (get_db st, False)"
    by (rule delete_absent)
next
  assume a: "store_ok st \<and> commit_fault st = None \<and> record_id \<in> id_col ` set (rows st)"
  define st1 where "st1 = st\<lparr>rows := filter (\<lambda>r. id_col r \<noteq> record_id) (rows st)\<rparr>"
  have gone: "record_id \<notin> id_col ` set (rows st1)"
    by (auto simp: st1_def)
  have "delete_attendance_record (get_db st) record_id = Inr (get_db st1, True)"
    using a by (simp add: delete_present st1_def)
  moreover have "length (rows st1) + 1 = length (rows st)"
    using a length_filter_out_id [of "rows st" record_id] by (simp add: st1_def store_ok_def)
  moreover have "delete_attendance_record (get_db st1) record_id = Inr (get_db st1, False)"
    using gone by (rule delete_absent)
  ultimately show "let st1 = st\<lparr>rows := filter (\<lambda>r. id_col r \<noteq> record_id) (rows st)\<rparr>
       in delete_attendance_record (get_db st) record_id = Inr (get_db st1, True) \<and>
          length (rows st1) + 1 = length (rows st) \<and>
          record_id \<notin> id_col ` set (rows st1) \<and>
          delete_attendance_record (get_db st1) record_id = Inr (get_db st1, False)"
    using gone unfolding Let_def st1_def by simp
qed

theorem delete_by_id_idempotent_witness:
  "delete_attendance_record (get_db example_store) 1 = Inr (get_db (example_store\<lparr>rows := []\<rparr>), True) \<and>
   delete_attendance_record (get_db (example_store\<lparr>rows := []\<rparr>)) 1
     = Inr (get_db (example_store\<lparr>rows := []\<rparr>), False) \<and>
   delete_attendance_record (get_db example_store) 2 = Inr (get_db example_store, False)"
  using delete_by_id_idempotent [of example_store 1] delete_by_id_idempotent [of example_store 2]
  by (simp add: store_ok_def example_store_def example_row_def Let_def)

section \<open>C8: get by id, not found\<close>

text \<open>
  C8. For an id that is not in the table, \<open>get_attendance_by_id\<close> of crud.py returns
  \<open>None\<close> (its result has no exception), and the route answers 404 with the detail
  "Attendance record with ID <id> not found", also when called through the framework
  with the id as path parameter.
\<close>

theorem get_by_id_not_found:
  assumes "record_id \<notin> id_col ` set (rows (bind db))"
  shows "get_attendance_by_id db record_id = None \<and>
         get_attendance_by_id_v1 db record_id =
           (db, Response 404 (Detail (''Attendance record with ID '' @ str_int record_id @ '' not found''))) \<and>
         (parse_int cv s = Some record_id \<longrightarrow>
            call_endpoint cv (bind db) GetAttendanceById [(''record_id'', s)] req =
              (bind db, Response 404 (Detail (''Attendance record with ID '' @ str_int record_id @ '' not found''))))"
proof -
  have none: "get_attendance_by_id db record_id = None"
    using assms by (simp add: get_attendance_by_id_def query_def find_id_absent)
  have none': "get_attendance_by_id (get_db (bind db)) record_id = None"
    using assms by (simp add: get_attendance_by_id_def query_def find_id_absent get_db_def)
  show ?thesis
    using none none'
    by (simp add: get_attendance_by_id_v1_def path_record_id_def with_session_def close_def get_db_def)
qed


theorem get_by_id_not_found_witness:
  "get_attendance_by_id (get_db example_store) 42 = None \<and>
   get_attendance_by_id_v1 (get_db example_store) 42 =
     (get_db example_store, Response 404 (Detail ''Attendance record with ID 42 not found'')) \<and>
   call_endpoint example_conv example_store GetAttendanceById [(''record_id'', ''42'')]
       (example_request GET ''/api/v1/attendance/42'') =
     (example_store, Response 404 (Detail ''Attendance record with ID 42 not found''))"
proof -
  have s: "str_int 42 = ''42''"
    by code_simp
  show ?thesis
    using get_by_id_not_found [of 42 "get_db example_store" example_conv "''42''"
        "example_request GET ''/api/v1/attendance/42''"]
    by (simp add: s get_db_def example_store_def example_row_def example_conv_def)
qed

section \<open>C9: duplicate submissions\<close>

text \<open>
  C9. On a store that satisfies its invariant and on which the persistence layer does not
  raise (neither at the commit nor at the read that follows it), two valid inputs with the same \<open>student_id\<close> and \<open>timestamp\<close>, created one after the other (each
  in the session of its own request), are both accepted; the table ends with the two new
  rows after the old ones, and the two rows have different ids.
\<close>

theorem duplicate_submissions_stored:
  assumes "store_ok st" and "commit_fault st = None" and "refresh_fault st = None"
    and "valid_create a1" and "valid_create a2"
    and "student_id a1 = student_id a2" and "timestamp a1 = timestamp a2"
  shows "\<exists>db1 r1 db2 r2.
           create_attendance_record (get_db st) a1 = Inr (db1, r1) \<and>
           create_attendance_record (get_db (close db1)) a2 = Inr (db2, r2) \<and>
           rows (bind db2) = rows st @ [r1, r2] \<and>
           id_col r1 \<noteq> id_col r2 \<and>
           student_id r1 = student_id a1 \<and> student_id r2 = student_id a1 \<and>
           timestamp r1 = timestamp a1 \<and> timestamp r2 = timestamp a1"
proof -
  let ?r1 = "new_row st a1"
  let ?st1 = "st\<lparr>rows := rows st @ [?r1], next_id := next_id st + 1\<rparr>"
  let ?r2 = "new_row ?st1 a2"
  let ?st2 = "?st1\<lparr>rows := rows ?st1 @ [?r2], next_id := next_id ?st1 + 1\<rparr>"
  have first: "create_attendance_record (get_db st) a1 = Inr (get_db ?st1, ?r1)"
    using assms(1,2,3,4) by (simp add: create_attendance_record_ok valid_create_columns)
  have ok1: "store_ok ?st1"
    using assms(1) by (rule store_ok_create)
  have "commit_fault ?st1 = None" and "refresh_fault ?st1 = None"
    using assms(2,3) by simp_all
  with ok1 have "create_attendance_record (get_db ?st1) a2 = Inr (get_db ?st2, ?r2)"
    using assms(5) by (intro create_attendance_record_ok valid_create_columns)
  then have second: "create_attendance_record (get_db (close (get_db ?st1))) a2 = Inr (get_db ?st2, ?r2)"
    by (simp add: close_def get_db_def)
  have "rows (bind (get_db ?st2)) = rows st @ [?r1, ?r2]"
    by (simp add: get_db_def)
  moreover have "id_col ?r1 \<noteq> id_col ?r2"
    by (simp add: new_row_def)
  moreover have "student_id ?r1 = student_id a1 \<and> student_id ?r2 = student_id a1 \<and>
           timestamp ?r1 = timestamp a1 \<and> timestamp ?r2 = timestamp a1"
    using assms(6,7) by (simp add: new_row_def)
  ultimately show ?thesis
    using first second by blast
qed

theorem duplicate_submissions_stored_witness:
  "\<exists>db1 r1 db2 r2.
     create_attendance_record (get_db example_store)
       \<lparr>student_name = ''John Doe'', student_id = ''STU123'', timestamp = 1762597800,
        bluetooth_signal_strength = Some (- 45), status = ''present''\<rparr> = Inr (db1, r1) \<and>
     create_attendance_record (get_db (close db1))
       \<lparr>student_name = ''J. Doe'', student_id = ''STU123'', timestamp = 1762597800,
        bluetooth_signal_strength = None, status = ''late''\<rparr> = Inr (db2, r2) \<and>
     rows (bind db2) = example_row # [r1, r2] \<and>
     id_col r1 \<noteq> id_col r2 \<and>
     student_id r1 = ''STU123'' \<and> student_id r2 = ''STU123'' \<and>
     timestamp r1 = 1762597800 \<and> timestamp r2 = 1762597800"
  using duplicate_submissions_stored [of example_store
        "\<lparr>student_name = ''John Doe'', student_id = ''STU123'', timestamp = 1762597800,
          bluetooth_signal_strength = Some (- 45), status = ''present''\<rparr>"
        "\<lparr>student_name = ''J. Doe'', student_id = ''STU123'', timestamp = 1762597800,
          bluetooth_signal_strength = None, status = ''late''\<rparr>"]
  by (simp add: store_ok_def valid_create_def status_pattern_def example_store_def example_row_def)

section \<open>C2: pagination of the list\<close>

text \<open>
  C2. For every session, every filter argument, every \<open>skip\<close> from 0 and every \<open>limit\<close>
  from 1 to 500, \<open>get_attendance_records\<close> returns a list (no exception) of at most
  \<open>limit\<close> records, sorted by decreasing timestamp: it is the matching rows sorted by
  decreasing timestamp (a rearrangement of the matching rows), without the first
  \<open>skip\<close> and cut after \<open>limit\<close>. \<open>get_total_count\<close> is the number of all matching
  rows, whatever \<open>skip\<close> and \<open>limit\<close> are, so the length of the page is the smaller of
  \<open>limit\<close> and what is left of the total after \<open>skip\<close>. The list route answers 200 with
  that total and that page.
\<close>

theorem list_pagination:
  assumes "0 \<le> skip" and "1 \<le> limit" and "limit \<le> 500"
  shows "\<exists>records.
           get_attendance_records db skip limit sid = Inr records \<and>
           int (length records) \<le> limit \<and>
           sorted_wrt (\<lambda>a b. timestamp b \<le> timestamp a) records \<and>
           records = take (nat limit) (drop (nat skip) (order_by_desc_timestamp (matching_rows db sid))) \<and>
           sorted_wrt (\<lambda>a b. timestamp b \<le> timestamp a) (order_by_desc_timestamp (matching_rows db sid)) \<and>
           mset (order_by_desc_timestamp (matching_rows db sid)) = mset (matching_rows db sid) \<and>
           get_total_count db sid = int (length (matching_rows db sid)) \<and>
           int (length records) = min limit (max 0 (get_total_count db sid - skip)) \<and>
           get_attendance_list db skip limit sid
             = (db, Response 200 (ListBody (int (length (matching_rows db sid))) records))"
proof -
  let ?full = "order_by_desc_timestamp (matching_rows db sid)"
  let ?records = "take (nat limit) (drop (nat skip) ?full)"
  have r: "get_attendance_records db skip limit sid = Inr ?records"
    using assms by (simp add: get_attendance_records_eq)
  have full_sorted: "sorted_wrt (\<lambda>a b. timestamp b \<le> timestamp a) ?full"
    by (rule sorted_desc_order_by)
  then have "sorted_wrt (\<lambda>a b. timestamp b \<le> timestamp a) ?records"
    by (intro sorted_wrt_take sorted_wrt_drop)
  moreover have "int (length ?records) \<le> limit"
    using assms by simp
  moreover have "int (length ?records) = min limit (max 0 (get_total_count db sid - skip))"
  proof -
    have "int (min (n - nat skip) (nat limit)) = min limit (max 0 (int n - skip))" for n
      using assms by arith
    then show ?thesis
      by (simp add: get_total_count_eq length_order_by)
  qed
  moreover have "get_attendance_list db skip limit sid
             = (db, Response 200 (ListBody (int (length (matching_rows db sid))) ?records))"
    using r by (simp add: get_attendance_list_def get_total_count_eq)
  ultimately show ?thesis
    using r full_sorted by (simp add: mset_order_by get_total_count_eq)
qed


theorem list_pagination_witness:
  "get_attendance_records
     (get_db \<lparr>rows = [example_row\<lparr>id_col := 1, timestamp := 10\<rparr>,
                       example_row\<lparr>id_col := 2, timestamp := 30\<rparr>,
                       example_row\<lparr>id_col := 3, timestamp := 20\<rparr>],
              next_id = 4, clock = 40, commit_fault = None, refresh_fault = None\<rparr>) 1 1 None
     = Inr [example_row\<lparr>id_col := 3, timestamp := 20\<rparr>] \<and>
   get_total_count
     (get_db \<lparr>rows = [example_row\<lparr>id_col := 1, timestamp := 10\<rparr>,
                       example_row\<lparr>id_col := 2, timestamp := 30\<rparr>,
                       example_row\<lparr>id_col := 3, timestamp := 20\<rparr>],
              next_id = 4, clock = 40, commit_fault = None, refresh_fault = None\<rparr>) None = 3"
  using list_pagination [of 1 1
      "get_db \<lparr>rows = [example_row\<lparr>id_col := 1, timestamp := 10\<rparr>,
                       example_row\<lparr>id_col := 2, timestamp := 30\<rparr>,
                       example_row\<lparr>id_col := 3, timestamp := 20\<rparr>],
              next_id = 4, clock = 40, commit_fault = None, refresh_fault = None\<rparr>" None]
  by (simp add: matching_rows_def query_def get_db_def order_by_desc_timestamp_def example_row_def)

section \<open>C6: the student filter\<close>

text \<open>
  C6 as stated fails for the filter value that is the empty string: the table holds one
  row of student \<open>STU123\<close>, and the list with \<open>student_id\<close> the empty string returns that
  row and the total 1, although the row's \<open>student_id\<close> is not the empty string.
\<close>

theorem list_filter_counterexample:
  "get_attendance_records
     (get_db \<lparr>rows = [\<lparr>student_name = ''John Doe'', student_id = ''STU123'', timestamp = 1762597800,
                        bluetooth_signal_strength = Some (- 45), status = ''present'',
                        id_col = 1, created_at = Some 1762597805, updated_at = None\<rparr>],
              next_id = 2, clock = 1762597900, commit_fault = None, refresh_fault = None\<rparr>) 0 100 (Some '''')
     = Inr [\<lparr>student_name = ''John Doe'', student_id = ''STU123'', timestamp = 1762597800,
             bluetooth_signal_strength = Some (- 45), status = ''present'',
             id_col = 1, created_at = Some 1762597805, updated_at = None\<rparr>] \<and>
   get_total_count
     (get_db \<lparr>rows = [\<lparr>student_name = ''John Doe'', student_id = ''STU123'', timestamp = 1762597800,
                        bluetooth_signal_strength = Some (- 45), status = ''present'',
                        id_col = 1, created_at = Some 1762597805, updated_at = None\<rparr>],
              next_id = 2, clock = 1762597900, commit_fault = None, refresh_fault = None\<rparr>) (Some '''') = 1 \<and>
   ''STU123'' \<noteq> ''''"
  by (simp add: get_attendance_records_def get_total_count_def query_def get_db_def
      order_by_desc_timestamp_def)

text \<open>
  C6, amended. For every session and every non-empty filter value \<open>X\<close> (and \<open>skip\<close>,
  \<open>limit\<close> not negative), \<open>get_attendance_records\<close> returns only rows of the table whose
  \<open>student_id\<close> is \<open>X\<close>, and \<open>get_total_count\<close> is the number of rows of the table whose
  \<open>student_id\<close> is \<open>X\<close>.
\<close>

theorem list_filter_student_id:
  assumes "X \<noteq> []" and "0 \<le> skip" and "0 \<le> limit"
  shows "\<exists>records.
           get_attendance_records db skip limit (Some X) = Inr records \<and>
           (\<forall>r \<in> set records. student_id r = X \<and> r \<in> set (rows (bind db))) \<and>
           get_total_count db (Some X)
             = int (length (filter (\<lambda>r. student_id r = X) (rows (bind db))))"
proof -
  let ?m = "filter (\<lambda>r. student_id r = X) (rows (bind db))"
  let ?records = "take (nat limit) (drop (nat skip) (order_by_desc_timestamp ?m))"
  have m: "matching_rows db (Some X) = ?m"
    using assms(1) by (simp add: matching_rows_def query_def)
  have r: "get_attendance_records db skip limit (Some X) = Inr ?records"
    using assms(2,3) by (simp add: get_attendance_records_eq m)
  have "set ?records \<subseteq> set (order_by_desc_timestamp ?m)"
    by (meson set_take_subset set_drop_subset subset_trans)
  also have "\<dots> = set ?m"
    by (simp add: order_by_desc_timestamp_def)
  finally have "\<forall>r \<in> set ?records. student_id r = X \<and> r \<in> set (rows (bind db))"
    by auto
  moreover have "get_total_count db (Some X) = int (length ?m)"
    by (simp add: get_total_count_eq m)
  ultimately show ?thesis
    using r by blast
qed

theorem list_filter_student_id_witness:
  "get_attendance_records
     (get_db \<lparr>rows = [example_row\<lparr>id_col := 1, student_id := ''STU123''\<rparr>,
                       example_row\<lparr>id_col := 2, student_id := ''STU999''\<rparr>],
              next_id = 3, clock = 40, commit_fault = None, refresh_fault = None\<rparr>) 0 100 (Some ''STU999'')
     = Inr [example_row\<lparr>id_col := 2, student_id := ''STU999''\<rparr>] \<and>
   get_total_count
     (get_db \<lparr>rows = [example_row\<lparr>id_col := 1, student_id := ''STU123''\<rparr>,
                       example_row\<lparr>id_col := 2, student_id := ''STU999''\<rparr>],
              next_id = 3, clock = 40, commit_fault = None, refresh_fault = None\<rparr>) (Some ''STU999'') = 1"
  using list_filter_student_id [of "''STU999''" 0 100
      "get_db \<lparr>rows = [example_row\<lparr>id_col := 1, student_id := ''STU123''\<rparr>,
                       example_row\<lparr>id_col := 2, student_id := ''STU999''\<rparr>],
              next_id = 3, clock = 40, commit_fault = None, refresh_fault = None\<rparr>"]
  by (simp add: get_db_def example_row_def get_attendance_records_def query_def
      order_by_desc_timestamp_def)

section \<open>C5: invalid input is rejected before the data access layer\<close>

text \<open>
  C5. For every body that breaks a field constraint, validation against the create
  schema fails with a non-empty list of errors; the create endpoint, and the application
  on \<open>POST /api/v1/attendance/\<close>, answer 422 with these errors without calling the
  handler, and the store after the request is the store before it.
\<close>

theorem invalid_create_rejected:
  assumes "violates_constraint cv p"
  shows "\<exists>errs. errs \<noteq> [] \<and>
           validate_AttendanceV1Create cv p = Inl errs \<and>
           call_endpoint cv st CreateAttendance params (req\<lparr>json_body := Some p\<rparr>)
             = (st, Response 422 (ValidationErrors errs)) \<and>
           app cv st (req\<lparr>req_method := POST, req_path := ''/api/v1/attendance/'', json_body := Some p\<rparr>)
             = (st, Response 422 (ValidationErrors errs))"
proof -
  obtain errs where e: "errs \<noteq> []" "validate_AttendanceV1Create cv p = Inl errs"
    using validate_rejects [OF assms] by blast
  then have "call_endpoint cv st CreateAttendance ps (rq\<lparr>json_body := Some p\<rparr>)
               = (st, Response 422 (ValidationErrors errs))" for ps rq
    by (simp add: unprocessable_def)
  then show ?thesis
    using e by (simp add: app_def resolve_post_v1)
qed

theorem invalid_create_rejected_witness:
  "app example_conv example_store
     \<lparr>req_method = POST, req_path = ''/api/v1/attendance/'', q_skip = None, q_limit = None,
      q_student_id = None,
      json_body = Some \<lparr>p_student_name = Some ''John Doe'', p_student_id = Some ''STU123'',
                        p_timestamp = Some ''2025-11-08T10:30:00'',
                        p_bluetooth_signal_strength = Some 5, p_status = Some ''present''\<rparr>\<rparr>
     = (example_store,
        Response 422 (ValidationErrors [FieldError ''bluetooth_signal_strength'' ''less_than_equal'']))"
  using invalid_create_rejected [of example_conv
      "\<lparr>p_student_name = Some ''John Doe'', p_student_id = Some ''STU123'',
        p_timestamp = Some ''2025-11-08T10:30:00'',
        p_bluetooth_signal_strength = Some 5, p_status = Some ''present''\<rparr>"
      example_store "[]" "example_request POST ''/api/v1/attendance/''"]
  by (simp add: violates_constraint_def example_request_def validate_AttendanceV1Create_def
      str_field_def datetime_field_def opt_int_field_def status_field_def status_pattern_def
      example_conv_def)

section \<open>C3: the version 2 surface\<close>

text \<open>
  C3 as stated fails on the application of main.py, which includes the version 1 router
  only: a POST and a GET on \<open>/api/v2/attendance/\<close> are answered 404, not 501.
\<close>

theorem v2_surface_counterexample:
  "app example_conv example_store
     \<lparr>req_method = POST, req_path = ''/api/v2/attendance/'', q_skip = None, q_limit = None,
      q_student_id = None,
      json_body = Some \<lparr>p_student_name = Some ''John Doe'', p_student_id = Some ''STU123'',
                        p_timestamp = Some ''2025-11-08T10:30:00'',
                        p_bluetooth_signal_strength = Some (- 45), p_status = Some ''present''\<rparr>\<rparr>
     = (example_store, Response 404 (Detail ''Not Found'')) \<and>
   app example_conv example_store
     \<lparr>req_method = GET, req_path = ''/api/v2/attendance/'', q_skip = None, q_limit = None,
      q_student_id = None, json_body = None\<rparr>
     = (example_store, Response 404 (Detail ''Not Found''))"
  by (simp add: app_def resolve_v2)

text \<open>
  C3, amended. The two handlers of the version 2 router, whenever they are called and
  with any payload, return 501 with the fixed message that names
  \<open>/api/v1/attendance/\<close>, and leave the session and the store as they were; so do the
  two endpoints when the framework calls them. The application of main.py does not
  include the version 2 router: it answers every request on \<open>/api/v2/attendance/\<close> with
  404 and leaves the store unchanged.
\<close>

theorem v2_handlers_not_implemented:
  "create_attendance_v2 db attendance
     = (db, Response 501 (Detail ''API version 2 is not yet implemented. Please use /api/v1/attendance/'')) \<and>
   get_attendance_list_v2 db
     = (db, Response 501 (Detail ''API version 2 is not yet implemented. Please use /api/v1/attendance/'')) \<and>
   call_endpoint cv st CreateAttendanceV2 params (req\<lparr>json_body := Some p\<rparr>)
     = (st, Response 501 (Detail ''API version 2 is not yet implemented. Please use /api/v1/attendance/'')) \<and>
   call_endpoint cv st GetAttendanceListV2 params req
     = (st, Response 501 (Detail ''API version 2 is not yet implemented. Please use /api/v1/attendance/'')) \<and>
   app cv st (req\<lparr>req_path := ''/api/v2/attendance/''\<rparr>) = (st, Response 404 (Detail ''Not Found''))"
  by (simp add: create_attendance_v2_def get_attendance_list_v2_def with_session_def get_db_def
      close_def app_def resolve_v2)

theorem v2_handlers_not_implemented_witness:
  "create_attendance_v2 (get_db example_store) ()
     = (get_db example_store,
        Response 501 (Detail ''API version 2 is not yet implemented. Please use /api/v1/attendance/'')) \<and>
   get_attendance_list_v2 (get_db example_store)
     = (get_db example_store,
        Response 501 (Detail ''API version 2 is not yet implemented. Please use /api/v1/attendance/'')) \<and>
   app example_conv example_store (example_request PUT ''/api/v2/attendance/'')
     = (example_store, Response 404 (Detail ''Not Found''))"
  using v2_handlers_not_implemented [where db = "get_db example_store" and attendance = "()"
      and cv = example_conv and st = example_store
      and req = "example_request PUT ''/api/v2/attendance/''"]
  by (simp add: example_request_def)

section \<open>C4: a failure of the persistence layer\<close>

text \<open>
  C4 as stated fails twice. The create endpoint on a store whose commit raises answers
  500 with the text of the exception in the detail, here the driver, the host and the
  port of the database. And \<open>delete_attendance_record\<close> on the same store lets the
  exception pass without a rollback: the deletion is still pending in the session.
\<close>

theorem store_failure_counterexample:
  "app example_conv
     (example_store\<lparr>commit_fault :=
        Some ''(psycopg2.OperationalError) could not connect to server at db.internal port 5432''\<rparr>)
     \<lparr>req_method = POST, req_path = ''/api/v1/attendance/'', q_skip = None, q_limit = None,
      q_student_id = None,
      json_body = Some \<lparr>p_student_name = Some ''John Doe'', p_student_id = Some ''STU123'',
                        p_timestamp = Some ''2025-11-08T10:30:00'',
                        p_bluetooth_signal_strength = Some (- 45), p_status = Some ''present''\<rparr>\<rparr>
     = (example_store\<lparr>commit_fault :=
          Some ''(psycopg2.OperationalError) could not connect to server at db.internal port 5432''\<rparr>,
        Response 500 (Detail ''Failed to store attendance record: (psycopg2.OperationalError) could not connect to server at db.internal port 5432'')) \<and>
   delete_attendance_record
     (get_db (example_store\<lparr>commit_fault :=
        Some ''(psycopg2.OperationalError) could not connect to server at db.internal port 5432''\<rparr>)) 1
     = Inl (\<lparr>bind = example_store\<lparr>commit_fault :=
                Some ''(psycopg2.OperationalError) could not connect to server at db.internal port 5432''\<rparr>,
             pending = [Delete 1]\<rparr>,
            ''(psycopg2.OperationalError) could not connect to server at db.internal port 5432'')"
proof -
  have v: "validate_AttendanceV1Create example_conv
             \<lparr>p_student_name = Some ''John Doe'', p_student_id = Some ''STU123'',
              p_timestamp = Some ''2025-11-08T10:30:00'',
              p_bluetooth_signal_strength = Some (- 45), p_status = Some ''present''\<rparr>
           = Inr \<lparr>student_name = ''John Doe'', student_id = ''STU123'', timestamp = 1762597800,
                  bluetooth_signal_strength = Some (- 45), status = ''present''\<rparr>"
    by (simp add: validate_AttendanceV1Create_def str_field_def datetime_field_def
        opt_int_field_def status_field_def status_pattern_def example_conv_def)
  show ?thesis
    by (simp add: app_def resolve_post_v1 v create_endpoint_fault delete_commit_fault
        example_store_def example_row_def)
qed

text \<open>
  C4, amended. Whenever the commit of a create raises, \<open>create_attendance_record\<close> rolls
  the session back (nothing pending, the store unchanged) and raises the same exception.
  Whenever \<open>create_attendance_record\<close> raises at all, it leaves the session with nothing
  pending, and the store is the one it was given unless the exception came from the read
  after a successful commit. The create route and endpoint answer a failing commit with
  500 and the detail "Failed to store attendance record: " followed by the text of the
  exception, the store unchanged; the delete endpoint answers a failing commit with 500
  and the detail "Failed to delete attendance record: " followed by the text of the
  exception, the store unchanged. When the commit of a create succeeds and the read
  after it raises, the endpoint answers 500 in the same way and the committed row stays
  in the store.
\<close>

theorem store_failure_handling:
  "(commit (add (get_db st) a) = Inl (dbc, e) \<longrightarrow>
      create_attendance_record (get_db st) a = Inl (get_db st, e)) \<and>
   (create_attendance_record (get_db st) a = Inl (db', e) \<longrightarrow>
      pending db' = [] \<and>
      (bind db' = st \<or>
       (commit_fault st = None \<and> refresh_fault st = Some e \<and>
        bind db' = st\<lparr>rows := rows st @ [new_row st a], next_id := next_id st + 1\<rparr>))) \<and>
   (commit_fault st = Some e \<longrightarrow>
      create_attendance_record (get_db st) a = Inl (get_db st, e) \<and>
      create_attendance (get_db st) a
        = (get_db st, Response 500 (Detail (''Failed to store attendance record: '' @ e)))) \<and>
   (commit_fault st = Some e \<and> validate_AttendanceV1Create cv p = Inr a \<longrightarrow>
      call_endpoint cv st CreateAttendance params (req\<lparr>json_body := Some p\<rparr>)
        = (st, Response 500 (Detail (''Failed to store attendance record: '' @ e)))) \<and>
   (commit_fault st = Some e \<and> record_id \<in> id_col ` set (rows st) \<and>
    parse_int cv s = Some record_id \<longrightarrow>
      call_endpoint cv st DeleteAttendance [(''record_id'', s)] req
        = (st, Response 500 (Detail (''Failed to delete attendance record: '' @ e)))) \<and>
   (commit_fault st = None \<and> refresh_fault st = Some e \<and>
    validate_AttendanceV1Create cv p = Inr a \<longrightarrow>
      call_endpoint cv st CreateAttendance params (req\<lparr>json_body := Some p\<rparr>)
        = (st\<lparr>rows := rows st @ [new_row st a], next_id := next_id st + 1\<rparr>,
           Response 500 (Detail (''Failed to store attendance record: '' @ e))))"
proof (intro conjI impI)
  assume "commit (add (get_db st) a) = Inl (dbc, e)"
  then show "create_attendance_record (get_db st) a = Inl (get_db st, e)"
    by (rule create_commit_raises)
next
  assume raised: "create_attendance_record (get_db st) a = Inl (db', e)"
  from create_raises_cases [OF raised] show "pending db' = []"
    by (auto simp: get_db_def)
  from create_raises_cases [OF raised]
  show "bind db' = st \<or>
       (commit_fault st = None \<and> refresh_fault st = Some e \<and>
        bind db' = st\<lparr>rows := rows st @ [new_row st a], next_id := next_id st + 1\<rparr>)"
    by (auto simp: get_db_def)
next
  assume "commit_fault st = Some e"
  then show "create_attendance_record (get_db st) a = Inl (get_db st, e)"
    by (rule create_commit_fault)
next
  assume "commit_fault st = Some e"
  then show "create_attendance (get_db st) a
        = (get_db st, Response 500 (Detail (''Failed to store attendance record: '' @ e)))"
    by (simp add: create_attendance_def create_commit_fault)
next
  assume "commit_fault st = Some e \<and> validate_AttendanceV1Create cv p = Inr a"
  then show "call_endpoint cv st CreateAttendance params (req\<lparr>json_body := Some p\<rparr>)
        = (st, Response 500 (Detail (''Failed to store attendance record: '' @ e)))"
    by (simp add: create_endpoint_fault)
next
  assume "commit_fault st = Some e \<and> record_id \<in> id_col ` set (rows st) \<and>
    parse_int cv s = Some record_id"
  then show "call_endpoint cv st DeleteAttendance [(''record_id'', s)] req
        = (st, Response 500 (Detail (''Failed to delete attendance record: '' @ e)))"
    by (simp add: path_record_id_def delete_endpoint_fault)
next
  assume h: "commit_fault st = None \<and> refresh_fault st = Some e \<and>
    validate_AttendanceV1Create cv p = Inr a"
  then have "check_columns a = None"
    using validate_valid valid_create_columns by blast
  then show "call_endpoint cv st CreateAttendance params (req\<lparr>json_body := Some p\<rparr>)
        = (st\<lparr>rows := rows st @ [new_row st a], next_id := next_id st + 1\<rparr>,
           Response 500 (Detail (''Failed to store attendance record: '' @ e)))"
    using h by (simp add: create_endpoint_refresh_fault)
qed

theorem store_failure_handling_witness:
  "create_attendance_record (get_db (example_store\<lparr>commit_fault := Some ''connection lost''\<rparr>))
     \<lparr>student_name = ''John Doe'', student_id = ''STU123'', timestamp = 1762597800,
      bluetooth_signal_strength = Some (- 45), status = ''present''\<rparr>
     = Inl (get_db (example_store\<lparr>commit_fault := Some ''connection lost''\<rparr>), ''connection lost'') \<and>
   call_endpoint example_conv (example_store\<lparr>commit_fault := Some ''connection lost''\<rparr>)
       CreateAttendance []
       ((example_request POST ''/api/v1/attendance/'')
          \<lparr>json_body := Some \<lparr>p_student_name = Some ''John Doe'', p_student_id = Some ''STU123'',
                              p_timestamp = Some ''2025-11-08T10:30:00'',
                              p_bluetooth_signal_strength = Some (- 45),
                              p_status = Some ''present''\<rparr>\<rparr>)
     = (example_store\<lparr>commit_fault := Some ''connection lost''\<rparr>,
        Response 500 (Detail ''Failed to store attendance record: connection lost'')) \<and>
   call_endpoint example_conv (example_store\<lparr>commit_fault := Some ''connection lost''\<rparr>)
       DeleteAttendance [(''record_id'', ''1'')] (example_request DELETE ''/api/v1/attendance/1'')
     = (example_store\<lparr>commit_fault := Some ''connection lost''\<rparr>,
        Response 500 (Detail ''Failed to delete attendance record: connection lost'')) \<and>
   call_endpoint example_conv (example_store\<lparr>refresh_fault := Some ''connection lost''\<rparr>)
       CreateAttendance []
       ((example_request POST ''/api/v1/attendance/'')
          \<lparr>json_body := Some \<lparr>p_student_name = Some ''John Doe'', p_student_id = Some ''STU123'',
                              p_timestamp = Some ''2025-11-08T10:30:00'',
                              p_bluetooth_signal_strength = Some (- 45),
                              p_status = Some ''present''\<rparr>\<rparr>)
     = (\<lparr>rows = [example_row,
                  \<lparr>student_name = ''John Doe'', student_id = ''STU123'', timestamp = 1762597800,
                   bluetooth_signal_strength = Some (- 45), status = ''present'',
                   id_col = 2, created_at = Some 1762597900, updated_at = None\<rparr>],
         next_id = 3, clock = 1762597900, commit_fault = None,
         refresh_fault = Some ''connection lost''\<rparr>,
        Response 500 (Detail ''Failed to store attendance record: connection lost''))"
proof -
  let ?a = "\<lparr>student_name = ''John Doe'', student_id = ''STU123'', timestamp = 1762597800,
             bluetooth_signal_strength = Some (- 45), status = ''present''\<rparr>"
  let ?p = "\<lparr>p_student_name = Some ''John Doe'', p_student_id = Some ''STU123'',
             p_timestamp = Some ''2025-11-08T10:30:00'',
             p_bluetooth_signal_strength = Some (- 45), p_status = Some ''present''\<rparr>"
  let ?stc = "example_store\<lparr>commit_fault := Some ''connection lost''\<rparr>"
  let ?str = "example_store\<lparr>refresh_fault := Some ''connection lost''\<rparr>"
  have v: "validate_AttendanceV1Create example_conv ?p = Inr ?a"
    by (simp add: validate_AttendanceV1Create_def str_field_def datetime_field_def
        opt_int_field_def status_field_def status_pattern_def example_conv_def)
  have c: "commit (add (get_db ?stc) ?a) = Inl (add (get_db ?stc) ?a, ''connection lost'')"
    by (simp add: commit_def add_def get_db_def)
  have f: "commit_fault ?stc = Some ''connection lost''"
    by simp
  have i: "1 \<in> id_col ` set (rows ?stc)"
    by (simp add: example_store_def example_row_def)
  have n: "parse_int example_conv ''1'' = Some 1"
    by (simp add: example_conv_def)
  have r: "commit_fault ?str = None \<and> refresh_fault ?str = Some ''connection lost''"
    by (simp add: example_store_def)
  have one: "create_attendance_record (get_db ?stc) ?a = Inl (get_db ?stc, ''connection lost'')"
    using store_failure_handling
      [where st = ?stc and e = "''connection lost''" and a = ?a
         and dbc = "add (get_db ?stc) ?a"] c
    by simp
  have two: "pending (get_db ?stc) = []"
    using store_failure_handling
      [where st = ?stc and e = "''connection lost''" and a = ?a and db' = "get_db ?stc"] one
    by simp
  have three: "call_endpoint example_conv ?stc CreateAttendance []
                 ((example_request POST ''/api/v1/attendance/'')\<lparr>json_body := Some ?p\<rparr>)
               = (?stc, Response 500 (Detail ''Failed to store attendance record: connection lost''))"
    using store_failure_handling
      [where st = ?stc and e = "''connection lost''" and a = ?a and cv = example_conv
         and p = ?p and params = "[]" and req = "example_request POST ''/api/v1/attendance/''"]
      v f
    by simp
  have four: "call_endpoint example_conv ?stc DeleteAttendance [(''record_id'', ''1'')]
                (example_request DELETE ''/api/v1/attendance/1'')
              = (?stc, Response 500 (Detail ''Failed to delete attendance record: connection lost''))"
    using store_failure_handling
      [where st = ?stc and e = "''connection lost''" and cv = example_conv and record_id = 1
         and s = "''1''" and req = "example_request DELETE ''/api/v1/attendance/1''"]
      f i n
    by simp
  have five: "call_endpoint example_conv ?str CreateAttendance []
                 ((example_request POST ''/api/v1/attendance/'')\<lparr>json_body := Some ?p\<rparr>)
               = (?str\<lparr>rows := rows ?str @ [new_row ?str ?a], next_id := next_id ?str + 1\<rparr>,
                  Response 500 (Detail ''Failed to store attendance record: connection lost''))"
    using store_failure_handling
      [where st = ?str and e = "''connection lost''" and a = ?a and cv = example_conv
         and p = ?p and params = "[]" and req = "example_request POST ''/api/v1/attendance/''"]
      v r
    by simp
  have st': "?str\<lparr>rows := rows ?str @ [new_row ?str ?a], next_id := next_id ?str + 1\<rparr>
      = \<lparr>rows = [example_row,
                  \<lparr>student_name = ''John Doe'', student_id = ''STU123'', timestamp = 1762597800,
                   bluetooth_signal_strength = Some (- 45), status = ''present'',
                   id_col = 2, created_at = Some 1762597900, updated_at = None\<rparr>],
         next_id = 3, clock = 1762597900, commit_fault = None,
         refresh_fault = Some ''connection lost''\<rparr>"
    by (simp add: example_store_def new_row_def)
  show ?thesis
    using one two three four five unfolding st' by simp
qed

end
